theory Spec2Isabelle
  imports Complex_Main "HOL-Library.Word"
begin

section \<open>Radar-chart comment generator: embedding of \<open>src/src/App.tsx\<close>\<close>

subsection \<open>Strings and numbers of the host language\<close>

text \<open>
  A string of the program is a sequence of UTF-16 code units. The string literals of the
  source are written out below as their code units.
\<close>

type_synonym jsstring = "16 word list"

text \<open>
  A value of type \<open>number\<close>: not-a-number, the two infinities, or a finite value. Finite
  values are carried as rationals (every finite double is one). The sign of zero is not
  carried: the program never divides by a value and prints both zeros as \<open>0\<close>.
\<close>

datatype jsnum = NaN | NegInf | Fin rat | PosInf

text \<open>
  What the engine contributes and the repository does not define: the rounding of an
  exact sum or quotient to the nearest value of the machine format (an infinity on
  overflow), and the shortest round-trip printing of a finite number. Both are
  parameters of the model, so every statement below about an arbitrary \<open>eng\<close> holds
  whatever the engine does there.
\<close>

record engine =
  nearest_double :: "rat \<Rightarrow> jsnum"
  shortest_digits :: "rat \<Rightarrow> jsstring"

text \<open>The operator \<open><\<close>: false as soon as one side is not-a-number.\<close>

fun js_lt :: "jsnum \<Rightarrow> jsnum \<Rightarrow> bool" where
  "js_lt NaN y = False"
| "js_lt NegInf NaN = False"
| "js_lt NegInf NegInf = False"
| "js_lt NegInf (Fin b) = True"
| "js_lt NegInf PosInf = True"
| "js_lt (Fin a) NaN = False"
| "js_lt (Fin a) NegInf = False"
| "js_lt (Fin a) (Fin b) = (a < b)"
| "js_lt (Fin a) PosInf = True"
| "js_lt PosInf y = False"

text \<open>The operators \<open>></\<close> and \<open>>=\<close>.\<close>

definition js_gt :: "jsnum \<Rightarrow> jsnum \<Rightarrow> bool" where
  "js_gt x y = js_lt y x"

definition js_ge :: "jsnum \<Rightarrow> jsnum \<Rightarrow> bool" where
  "js_ge x y = (x \<noteq> NaN \<and> y \<noteq> NaN \<and> \<not> js_lt x y)"

text \<open>\<open>Math.min\<close> and \<open>Math.max\<close> on two arguments: not-a-number is contagious.\<close>

definition Math_min :: "jsnum \<Rightarrow> jsnum \<Rightarrow> jsnum" where
  "Math_min x y = (if x = NaN \<or> y = NaN then NaN else if js_lt y x then y else x)"

definition Math_max :: "jsnum \<Rightarrow> jsnum \<Rightarrow> jsnum" where
  "Math_max x y = (if x = NaN \<or> y = NaN then NaN else if js_lt x y then y else x)"

text \<open>
  The operators \<open>+\<close> and \<open>/\<close> on numbers: the exact result of two finite operands is
  rounded by the engine.
\<close>

fun js_add :: "engine \<Rightarrow> jsnum \<Rightarrow> jsnum \<Rightarrow> jsnum" where
  "js_add eng NaN y = NaN"
| "js_add eng NegInf NaN = NaN"
| "js_add eng NegInf NegInf = NegInf"
| "js_add eng NegInf (Fin b) = NegInf"
| "js_add eng NegInf PosInf = NaN"
| "js_add eng (Fin a) NaN = NaN"
| "js_add eng (Fin a) NegInf = NegInf"
| "js_add eng (Fin a) (Fin b) = nearest_double eng (a + b)"
| "js_add eng (Fin a) PosInf = PosInf"
| "js_add eng PosInf NaN = NaN"
| "js_add eng PosInf NegInf = NaN"
| "js_add eng PosInf (Fin b) = PosInf"
| "js_add eng PosInf PosInf = PosInf"

text \<open>
  Division by an array length, the only division of the program: the divisor is a
  non-negative integer, and zero is the positive zero.
\<close>

fun js_div_len :: "engine \<Rightarrow> jsnum \<Rightarrow> nat \<Rightarrow> jsnum" where
  "js_div_len eng NaN n = NaN"
| "js_div_len eng NegInf n = NegInf"
| "js_div_len eng PosInf n = PosInf"
| "js_div_len eng (Fin a) n =
     (if n = 0 then (if a = 0 then NaN else if a < 0 then NegInf else PosInf)
      else nearest_double eng (a / of_nat n))"

text \<open>\<open>x || 0\<close> on a number: zero and not-a-number are the falsy numbers.\<close>

definition or_zero :: "jsnum \<Rightarrow> jsnum" where
  "or_zero x = (if x = NaN \<or> x = Fin 0 then Fin 0 else x)"

subsection \<open>Printing numbers\<close>

definition digit :: "nat \<Rightarrow> 16 word" where
  "digit d = 0x30 + of_nat d"

fun digits :: "nat \<Rightarrow> jsstring" where
  "digits n = (if n < 10 then [digit n] else digits (n div 10) @ [digit (n mod 10)])"

declare digits.simps [simp del]

definition s_NaN :: jsstring where
  "s_NaN = [0x4E, 0x61, 0x4E]"

definition s_Infinity :: jsstring where
  "s_Infinity = [0x49, 0x6E, 0x66, 0x69, 0x6E, 0x69, 0x74, 0x79]"

definition s_minus :: jsstring where
  "s_minus = [0x2D]"

text \<open>
  The conversion of a number to a string, as a template literal performs it. An integer
  of magnitude below \<open>2^53\<close> prints as its decimal digits: there the shortest
  round-trip digits are all of them. Every other finite value (a fraction, or an integer
  from \<open>2^53\<close> up, whose low digits print as zeros or in exponent notation) prints as the
  engine decides.
\<close>

definition numToString :: "engine \<Rightarrow> jsnum \<Rightarrow> jsstring" where
  "numToString eng v =
     (case v of
        NaN \<Rightarrow> s_NaN
      | PosInf \<Rightarrow> s_Infinity
      | NegInf \<Rightarrow> s_minus @ s_Infinity
      | Fin r \<Rightarrow>
          if of_int \<lfloor>r\<rfloor> = r \<and> \<bar>r\<bar> < 2 ^ 53
          then (if r < 0 then s_minus @ digits (nat (- \<lfloor>r\<rfloor>)) else digits (nat \<lfloor>r\<rfloor>))
          else shortest_digits eng r)"

text \<open>
  \<open>toFixed(1)\<close>: a value that is not finite prints as above, and so does a magnitude
  from \<open>10^21\<close> up; otherwise the sign is split off, the magnitude is rounded to the
  nearest tenth (the larger one on a tie), all digits of that integer are printed, and
  they are padded to at least two before the point is inserted.
\<close>

definition toFixed1 :: "engine \<Rightarrow> jsnum \<Rightarrow> jsstring" where
  "toFixed1 eng v =
     (case v of
        Fin r \<Rightarrow>
          (let s = (if r < 0 then s_minus else []);
               x = \<bar>r\<bar>
           in if x \<ge> 10 ^ 21 then s @ numToString eng (Fin x)
              else (let n = nat \<lfloor>x * 10 + 1 / 2\<rfloor>;
                        m = digits n;
                        m' = (if length m \<le> 1 then replicate (2 - length m) (digit 0) @ m else m)
                    in s @ butlast m' @ [0x2E] @ [last m']))
      | _ \<Rightarrow> numToString eng v)"

subsection \<open>The module-level helpers\<close>

text \<open>\<open>clamp(n, min = 0, max = 5)\<close>; the callers below write the default bounds out.\<close>

definition clamp :: "jsnum \<Rightarrow> jsnum \<Rightarrow> jsnum \<Rightarrow> jsnum" where
  "clamp n mn mx = Math_max mn (Math_min mx n)"

record axis =
  axis_id :: jsstring
  axis_label :: jsstring
  axis_value :: jsnum

text \<open>
  \<open>uid()\<close> draws from the random source of the engine. Each call is an input of the
  model: the functions that call it take the drawn identifier as an argument.
\<close>

definition s_speed :: jsstring where
  "s_speed = [0x30B9, 0x30D4, 0x30FC, 0x30C9]"

definition s_accuracy :: jsstring where
  "s_accuracy = [0x6B63, 0x78BA, 0x3055]"

definition s_creativity :: jsstring where
  "s_creativity = [0x5275, 0x9020, 0x6027]"

definition s_persistence :: jsstring where
  "s_persistence = [0x7D99, 0x7D9A, 0x529B]"

definition s_teamwork :: jsstring where
  "s_teamwork = [0x5354, 0x8ABF, 0x6027]"

definition DEFAULT_AXES ::
  "jsstring \<Rightarrow> jsstring \<Rightarrow> jsstring \<Rightarrow> jsstring \<Rightarrow> jsstring \<Rightarrow> axis list" where
  "DEFAULT_AXES u1 u2 u3 u4 u5 =
     [\<lparr>axis_id = u1, axis_label = s_speed, axis_value = Fin 3\<rparr>,
      \<lparr>axis_id = u2, axis_label = s_accuracy, axis_value = Fin 4\<rparr>,
      \<lparr>axis_id = u3, axis_label = s_creativity, axis_value = Fin 3\<rparr>,
      \<lparr>axis_id = u4, axis_label = s_persistence, axis_value = Fin 4\<rparr>,
      \<lparr>axis_id = u5, axis_label = s_teamwork, axis_value = Fin 3\<rparr>]"

definition s_excellent :: jsstring where
  "s_excellent = [0x975E, 0x5E38, 0x306B, 0x512A, 0x79C0]"

definition s_good :: jsstring where
  "s_good = [0x826F, 0x597D]"

definition s_average :: jsstring where
  "s_average = [0x5E73, 0x5747, 0x7684]"

definition s_room :: jsstring where
  "s_room = [0x6539, 0x5584, 0x306E, 0x4F59, 0x5730]"

definition s_strengthen :: jsstring where
  "s_strengthen = [0x8981, 0x5F37, 0x5316]"

definition phraseForValue :: "jsnum \<Rightarrow> jsstring" where
  "phraseForValue v =
     (if js_ge v (Fin 5) then s_excellent
      else if js_ge v (Fin 4) then s_good
      else if js_ge v (Fin 3) then s_average
      else if js_ge v (Fin 2) then s_room
      else s_strengthen)"

subsection \<open>\<open>generateComment\<close>\<close>

definition nl :: jsstring where
  "nl = [0x0A]"

text \<open>\<open>Array.prototype.join\<close> on strings.\<close>

fun join :: "jsstring \<Rightarrow> jsstring list \<Rightarrow> jsstring" where
  "join sep [] = []"
| "join sep [x] = x"
| "join sep (x # y # ys) = x @ sep @ join sep (y # ys)"

text \<open>The average of the clamped values, printed with one decimal.\<close>

definition avg_text :: "engine \<Rightarrow> axis list \<Rightarrow> jsstring" where
  "avg_text eng axes =
     toFixed1 eng
       (js_div_len eng
          (foldl (\<lambda>acc a. js_add eng acc (clamp (axis_value a) (Fin 0) (Fin 5))) (Fin 0) axes)
          (length axes))"

text \<open>
  The two \<open>reduce\<close> calls have no initial value: on a non-empty array the first element
  starts the fold and the callback runs on the others, from left to right.
\<close>

definition highest_of :: "axis \<Rightarrow> axis list \<Rightarrow> axis" where
  "highest_of a0 rest =
     foldl (\<lambda>p c. if js_gt (axis_value c) (axis_value p) then c else p) a0 rest"

definition lowest_of :: "axis \<Rightarrow> axis list \<Rightarrow> axis" where
  "lowest_of a0 rest =
     foldl (\<lambda>p c. if js_lt (axis_value c) (axis_value p) then c else p) a0 rest"

definition s_dot :: jsstring where
  "s_dot = [0x30FB]"

definition s_colon :: jsstring where
  "s_colon = [0x3A, 0x20]"

definition s_lparen :: jsstring where
  "s_lparen = [0xFF08]"

definition s_rparen :: jsstring where
  "s_rparen = [0xFF09]"

definition bullet_line :: "engine \<Rightarrow> axis \<Rightarrow> jsstring" where
  "bullet_line eng a =
     s_dot @ axis_label a @ s_colon @ numToString eng (axis_value a)
       @ s_lparen @ phraseForValue (axis_value a) @ s_rparen"

definition bullets_of :: "engine \<Rightarrow> axis list \<Rightarrow> jsstring" where
  "bullets_of eng axes = join nl (map (bullet_line eng) axes)"

definition s_sugg_open :: jsstring where
  "s_sugg_open = [0x2D, 0x20, 0x300C]"

definition s_sugg_close :: jsstring where
  "s_sugg_close =
     [0x300D, 0x5411, 0x4E0A, 0x306E, 0x305F, 0x3081, 0x306B, 0x3001, 0x9031, 0x31,
      0x56DE, 0x306E, 0x7DF4, 0x7FD2, 0x3084, 0x78BA, 0x8A8D, 0x3092, 0x53D6, 0x308A,
      0x5165, 0x308C, 0x308B, 0x3002]"

definition suggestion_line :: "axis \<Rightarrow> jsstring" where
  "suggestion_line a = s_sugg_open @ axis_label a @ s_sugg_close"

definition suggestions_of :: "axis list \<Rightarrow> jsstring" where
  "suggestions_of axes =
     join nl (map suggestion_line
       (take 3 (filter (\<lambda>a. js_lt (axis_value a) (Fin 4)) axes)))"

definition s_summary_head :: jsstring where
  "s_summary_head = [0x3010, 0x30B5, 0x30DE, 0x30EA, 0x30FC, 0x3011, 0x0A]"

definition s_avg_is :: jsstring where
  "s_avg_is = [0x5E73, 0x5747, 0x30B9, 0x30B3, 0x30A2, 0x306F]"

definition s_especially :: jsstring where
  "s_especially = [0x3002, 0x7279, 0x306B, 0x300C]"

definition s_is_strength :: jsstring where
  "s_is_strength = [0x300D, 0x304C, 0x5F37, 0x307F, 0xFF08]"

definition s_close_stop :: jsstring where
  "s_close_stop = [0xFF09, 0x3002]"

definition s_whereas :: jsstring where
  "s_whereas = [0x20, 0x4E00, 0x65B9, 0x3067, 0x300C]"

definition s_is_weakness :: jsstring where
  "s_is_weakness = [0x300D, 0x306F, 0x76F8, 0x5BFE, 0x7684, 0x306A, 0x5F31, 0x70B9, 0xFF08]"

definition s_items_head :: jsstring where
  "s_items_head = [0x3010, 0x5404, 0x9805, 0x76EE, 0x3011, 0x0A]"

definition s_next_head :: jsstring where
  "s_next_head = [0x3010, 0x6B21, 0x306E, 0x4E00, 0x6B69, 0x3011, 0x0A]"

definition s_maintain :: jsstring where
  "s_maintain =
     [0x73FE, 0x72B6, 0x7DAD, 0x6301, 0x3067, 0x4F, 0x4B, 0x3002, 0x5F37, 0x307F, 0x3092,
      0x3055, 0x3089, 0x306B, 0x4F38, 0x3070, 0x3057, 0x307E, 0x3057, 0x3087, 0x3046,
      0x3002]"

text \<open>
  The last operand of the returned concatenation. The condition is the truthiness of the
  string \<open>suggestions\<close>: the empty string is the only falsy one.
\<close>

definition suggestions_section :: "axis list \<Rightarrow> jsstring" where
  "suggestions_section axes =
     (if suggestions_of axes \<noteq> [] then s_next_head @ suggestions_of axes @ nl
      else s_next_head @ s_maintain)"

text \<open>The operands before it: the summary and the per-axis block.\<close>

definition summary_section :: "engine \<Rightarrow> axis \<Rightarrow> axis list \<Rightarrow> jsstring" where
  "summary_section eng a0 rest =
     s_summary_head
     @ s_avg_is @ avg_text eng (a0 # rest) @ s_especially
       @ axis_label (highest_of a0 rest) @ s_is_strength
       @ numToString eng (axis_value (highest_of a0 rest)) @ s_close_stop
     @ s_whereas @ axis_label (lowest_of a0 rest) @ s_is_weakness
       @ numToString eng (axis_value (lowest_of a0 rest)) @ s_close_stop @ nl @ nl"

definition items_section :: "engine \<Rightarrow> axis list \<Rightarrow> jsstring" where
  "items_section eng axes = s_items_head @ bullets_of eng axes @ nl @ nl"

fun generateComment :: "engine \<Rightarrow> axis list \<Rightarrow> jsstring" where
  "generateComment eng [] = []"
| "generateComment eng (a0 # rest) =
     summary_section eng a0 rest
     @ items_section eng (a0 # rest)
     @ suggestions_section (a0 # rest)"

subsection \<open>The component state and its handlers\<close>

record app =
  title :: jsstring
  axes :: "axis list"
  showRadiusTicks :: bool
  comment :: jsstring

definition setAxes :: "(axis list \<Rightarrow> axis list) \<Rightarrow> app \<Rightarrow> app" where
  "setAxes f s = s\<lparr>axes := f (axes s)\<rparr>"

definition setComment :: "jsstring \<Rightarrow> app \<Rightarrow> app" where
  "setComment c s = s\<lparr>comment := c\<rparr>"

definition s_untitled :: jsstring where
  "s_untitled = [0x7121, 0x984C]"

definition s_new_item :: jsstring where
  "s_new_item = [0x65B0, 0x898F, 0x9805, 0x76EE]"

record chart_point =
  subject :: jsstring
  score :: jsnum
  fullMark :: jsnum

text \<open>The memoised chart data; \<open>Number\<close> applied to a number returns it.\<close>

definition chart_data :: "app \<Rightarrow> chart_point list" where
  "chart_data s =
     map (\<lambda>a. \<lparr>subject = (if axis_label a \<noteq> [] then axis_label a else s_untitled),
               score = clamp (or_zero (axis_value a)) (Fin 0) (Fin 5),
               fullMark = Fin 5\<rparr>) (axes s)"

definition addAxis :: "jsstring \<Rightarrow> app \<Rightarrow> app" where
  "addAxis u s =
     setAxes (\<lambda>prev. prev @ [\<lparr>axis_id = u, axis_label = s_new_item, axis_value = Fin 3\<rparr>]) s"

definition removeAxis :: "jsstring \<Rightarrow> app \<Rightarrow> app" where
  "removeAxis i s = setAxes (\<lambda>prev. filter (\<lambda>a. axis_id a \<noteq> i) prev) s"

definition updateLabel :: "jsstring \<Rightarrow> jsstring \<Rightarrow> app \<Rightarrow> app" where
  "updateLabel i l s =
     setAxes (\<lambda>prev. map (\<lambda>a. if axis_id a = i then a\<lparr>axis_label := l\<rparr> else a) prev) s"

definition updateValue :: "jsstring \<Rightarrow> jsnum \<Rightarrow> app \<Rightarrow> app" where
  "updateValue i v s =
     setAxes (\<lambda>prev. map (\<lambda>a. if axis_id a = i
                               then a\<lparr>axis_value := clamp v (Fin 0) (Fin 5)\<rparr> else a) prev) s"

definition handleGenerate :: "engine \<Rightarrow> app \<Rightarrow> app" where
  "handleGenerate eng s = setComment (generateComment eng (axes s)) s"

text \<open>The four mutations as commands, and a run of them from a starting state.\<close>

datatype command =
    Add jsstring
  | Remove jsstring
  | UpdateLabel jsstring jsstring
  | UpdateValue jsstring jsnum

fun exec :: "app \<Rightarrow> command \<Rightarrow> app" where
  "exec s (Add u) = addAxis u s"
| "exec s (Remove i) = removeAxis i s"
| "exec s (UpdateLabel i l) = updateLabel i l s"
| "exec s (UpdateValue i v) = updateValue i v s"

definition run :: "app \<Rightarrow> command list \<Rightarrow> app" where
  "run s cs = foldl exec s cs"

text \<open>The state invariant of the store: a value within the display range.\<close>

definition in_range :: "jsnum \<Rightarrow> bool" where
  "in_range v = (case v of Fin r \<Rightarrow> 0 \<le> r \<and> r \<le> 5 | _ \<Rightarrow> False)"

definition all_in_range :: "axis list \<Rightarrow> bool" where
  "all_in_range xs = list_all (\<lambda>a. in_range (axis_value a)) xs"

text \<open>The sequence with every value replaced by its clamp.\<close>

definition clamp_all :: "axis list \<Rightarrow> axis list" where
  "clamp_all xs = map (\<lambda>a. a\<lparr>axis_value := clamp (axis_value a) (Fin 0) (Fin 5)\<rparr>) xs"

text \<open>
  Concrete data for the evaluations below. The engine \<open>eng0\<close> is only asked about small
  integers: it returns an exact result that is representable as it is, which every
  engine does, and its printer of fractions and large values is never consulted. Then
  an axis built from its three fields, a state built from its axes, and the default
  axes with five identifiers that \<open>uid\<close> can draw.
\<close>

definition eng0 :: engine where
  "eng0 = \<lparr>nearest_double = Fin, shortest_digits = (\<lambda>r. [])\<rparr>"

definition mk :: "jsstring \<Rightarrow> jsstring \<Rightarrow> jsnum \<Rightarrow> axis" where
  "mk i l v = \<lparr>axis_id = i, axis_label = l, axis_value = v\<rparr>"

definition s_Speed :: jsstring where
  "s_Speed = [0x53, 0x70, 0x65, 0x65, 0x64]"

definition app0 :: "axis list \<Rightarrow> app" where
  "app0 xs = \<lparr>title = [], axes = xs, showRadiusTicks = False, comment = []\<rparr>"

definition axes0 :: "axis list" where
  "axes0 = DEFAULT_AXES [0x69] [0x39] [0x72] [0x34, 0x69] [0x64, 0x69]"

text \<open>Two axes print alike when they agree on label and value, whatever their ids.\<close>

definition same_text :: "axis \<Rightarrow> axis \<Rightarrow> bool" where
  "same_text a b = (axis_label a = axis_label b \<and> axis_value a = axis_value b)"

text \<open>A command whose numeric argument, if it has one, is a number.\<close>

definition numeric_command :: "command \<Rightarrow> bool" where
  "numeric_command c = (case c of UpdateValue i v \<Rightarrow> v \<noteq> NaN | _ \<Rightarrow> True)"

section \<open>Properties\<close>

subsection \<open>Clamping\<close>

lemma clamp_cases:
  "clamp v (Fin 0) (Fin 5) =
     (case v of NaN \<Rightarrow> NaN | NegInf \<Rightarrow> Fin 0 | PosInf \<Rightarrow> Fin 5
      | Fin r \<Rightarrow> if r < 0 then Fin 0 else if 5 < r then Fin 5 else Fin r)"
  by (cases v) (auto simp: clamp_def Math_max_def Math_min_def)

lemma clamp_in_range_iff: "in_range (clamp v (Fin 0) (Fin 5)) = (v \<noteq> NaN)"
  by (cases v) (auto simp: clamp_cases in_range_def)

lemma clamp_fixed: "in_range v \<Longrightarrow> clamp v (Fin 0) (Fin 5) = v"
  by (cases v) (auto simp: clamp_cases in_range_def)

lemma clamp_twice: "clamp (clamp v (Fin 0) (Fin 5)) (Fin 0) (Fin 5) = clamp v (Fin 0) (Fin 5)"
  by (cases v) (auto simp: clamp_cases)

text \<open>
  C9. For every number \<open>v\<close> (a value that is not not-a-number), \<open>clamp(v, 0, 5)\<close> lies in
  the closed range from 0 to 5, and clamping a second time changes nothing.
\<close>

theorem clamp_range_idempotent:
  "v \<noteq> NaN \<Longrightarrow>
     in_range (clamp v (Fin 0) (Fin 5))
     \<and> clamp (clamp v (Fin 0) (Fin 5)) (Fin 0) (Fin 5) = clamp v (Fin 0) (Fin 5)"
  by (simp add: clamp_in_range_iff clamp_twice)

theorem clamp_range_idempotent_witness:
  "Fin 7 \<noteq> NaN
   \<and> in_range (clamp (Fin 7) (Fin 0) (Fin 5))
   \<and> clamp (clamp (Fin 7) (Fin 0) (Fin 5)) (Fin 0) (Fin 5) = clamp (Fin 7) (Fin 0) (Fin 5)"
  using clamp_range_idempotent [of "Fin 7"] by simp

subsection \<open>The empty collection\<close>

text \<open>
  C6. \<open>generateComment\<close> on the empty sequence returns the empty string; generating on a
  state with no axes stores that empty comment and changes nothing else.
\<close>

theorem generateComment_empty:
  "generateComment eng [] = []
   \<and> handleGenerate eng (s\<lparr>axes := []\<rparr>) = s\<lparr>axes := [], comment := []\<rparr>"
  by (simp add: handleGenerate_def setComment_def)

subsection \<open>The suggestions section\<close>

lemma join_Cons_nonempty: "x \<noteq> [] \<Longrightarrow> join sep (x # xs) \<noteq> []"
  by (cases xs) auto

lemma suggestion_line_nonempty: "suggestion_line a \<noteq> []"
  by (simp add: suggestion_line_def s_sugg_open_def)

lemma join_lines_empty_iff: "(join sep (map suggestion_line qs) = []) = (qs = [])"
  by (cases qs) (auto simp: join_Cons_nonempty suggestion_line_nonempty)

lemma take3_empty_iff: "(take 3 qs = []) = (qs = [])"
  by (cases qs) auto

lemma suggestions_of_empty_iff:
  "(suggestions_of xs = []) = (\<not> (\<exists>a \<in> set xs. js_lt (axis_value a) (Fin 4)))"
  by (simp add: suggestions_of_def join_lines_empty_iff take3_empty_iff filter_empty_conv)

lemma lt4_clamp: "js_lt (clamp v (Fin 0) (Fin 5)) (Fin 4) = js_lt v (Fin 4)"
  by (cases v) (auto simp: clamp_cases)

lemma suggestions_section_nonempty: "suggestions_section xs \<noteq> []"
  by (simp add: suggestions_section_def s_next_head_def)

lemma last_suggestions_section:
  "last (suggestions_section xs) =
     (if \<exists>a \<in> set xs. js_lt (axis_value a) (Fin 4) then 0x0A else 0x3002)"
  using suggestions_of_empty_iff [of xs]
  by (auto simp: suggestions_section_def nl_def s_maintain_def s_next_head_def)

lemma last_generateComment:
  "last (generateComment eng (a0 # rest)) = last (suggestions_section (a0 # rest))"
  by (simp add: suggestions_section_nonempty)

lemma section_by_cases:
  "(if join nl (map suggestion_line qs) \<noteq> []
    then s_next_head @ join nl (map suggestion_line qs) @ nl
    else s_next_head @ s_maintain) =
   s_next_head @ (case qs of [] \<Rightarrow> s_maintain
                  | q # qs' \<Rightarrow> join nl (map suggestion_line (q # qs')) @ nl)"
  by (cases qs) (simp_all add: join_Cons_nonempty suggestion_line_nonempty)

lemma join_then_sep: "ls \<noteq> [] \<Longrightarrow> join sep ls @ sep = concat (map (\<lambda>l. l @ sep) ls)"
  by (induction sep ls rule: join.induct) simp_all

lemma suggestion_lines_concat:
  "join nl (map suggestion_line (q # qs)) @ nl =
     concat (map (\<lambda>a. s_sugg_open @ axis_label a @ s_sugg_close @ nl) (q # qs))"
  using join_then_sep [of "map suggestion_line (q # qs)" nl]
  by (simp add: suggestion_line_def comp_def)

lemma suggestions_section_lines:
  "suggestions_section xs =
     s_next_head
     @ (case take 3 (filter (\<lambda>a. js_lt (clamp (axis_value a) (Fin 0) (Fin 5)) (Fin 4)) xs)
        of [] \<Rightarrow> s_maintain
         | q # qs \<Rightarrow>
             concat (map (\<lambda>a. s_sugg_open @ axis_label a @ s_sugg_close @ nl) (q # qs)))"
proof -
  let ?qs = "take 3 (filter (\<lambda>a. js_lt (axis_value a) (Fin 4)) xs)"
  have "(case ?qs of [] \<Rightarrow> s_maintain
         | q # qs \<Rightarrow> join nl (map suggestion_line (q # qs)) @ nl) =
        (case ?qs of [] \<Rightarrow> s_maintain
         | q # qs \<Rightarrow>
             concat (map (\<lambda>a. s_sugg_open @ axis_label a @ s_sugg_close @ nl) (q # qs)))"
    by (cases ?qs) (simp_all only: list.case suggestion_lines_concat)
  then show ?thesis
    unfolding suggestions_section_def suggestions_of_def section_by_cases lt4_clamp
    by (simp only:)
qed

text \<open>
  C5. For a non-empty axis sequence the output ends with the suggestions section: its
  heading line, then, for each of the first at most three axes, in collection order,
  whose clamped value is below 4, exactly one line made of the fixed template around
  the label of that axis and ended by a newline; when no axis has a clamped value below
  4, the heading line is followed by the fixed keep-the-current-level message alone,
  with no line of the template. The fixed texts are written out as their code units.
\<close>

theorem suggestions_block:
  "generateComment eng (a0 # rest) =
     summary_section eng a0 rest @ items_section eng (a0 # rest)
     @ [0x3010, 0x6B21, 0x306E, 0x4E00, 0x6B69, 0x3011, 0x0A]
     @ (case take 3 (filter (\<lambda>a. js_lt (clamp (axis_value a) (Fin 0) (Fin 5)) (Fin 4))
                      (a0 # rest))
        of [] \<Rightarrow>
             [0x73FE, 0x72B6, 0x7DAD, 0x6301, 0x3067, 0x4F, 0x4B, 0x3002, 0x5F37, 0x307F,
              0x3092, 0x3055, 0x3089, 0x306B, 0x4F38, 0x3070, 0x3057, 0x307E, 0x3057,
              0x3087, 0x3046, 0x3002]
         | q # qs \<Rightarrow>
             concat (map (\<lambda>a.
               [0x2D, 0x20, 0x300C] @ axis_label a
               @ [0x300D, 0x5411, 0x4E0A, 0x306E, 0x305F, 0x3081, 0x306B, 0x3001, 0x9031,
                  0x31, 0x56DE, 0x306E, 0x7DF4, 0x7FD2, 0x3084, 0x78BA, 0x8A8D, 0x3092,
                  0x53D6, 0x308A, 0x5165, 0x308C, 0x308B, 0x3002]
               @ [0x0A]) (q # qs)))"
  unfolding generateComment.simps suggestions_section_lines
  unfolding s_next_head_def s_maintain_def s_sugg_open_def s_sugg_close_def nl_def
  by (rule refl)

theorem suggestions_block_witness:
  "generateComment eng0 axes0 =
     summary_section eng0 (hd axes0) (tl axes0) @ items_section eng0 axes0
     @ [0x3010, 0x6B21, 0x306E, 0x4E00, 0x6B69, 0x3011, 0x0A]
     @ [0x2D, 0x20, 0x300C, 0x30B9, 0x30D4, 0x30FC, 0x30C9,
        0x300D, 0x5411, 0x4E0A, 0x306E, 0x305F, 0x3081, 0x306B, 0x3001, 0x9031,
        0x31, 0x56DE, 0x306E, 0x7DF4, 0x7FD2, 0x3084, 0x78BA, 0x8A8D, 0x3092,
        0x53D6, 0x308A, 0x5165, 0x308C, 0x308B, 0x3002, 0x0A]
     @ [0x2D, 0x20, 0x300C, 0x5275, 0x9020, 0x6027,
        0x300D, 0x5411, 0x4E0A, 0x306E, 0x305F, 0x3081, 0x306B, 0x3001, 0x9031,
        0x31, 0x56DE, 0x306E, 0x7DF4, 0x7FD2, 0x3084, 0x78BA, 0x8A8D, 0x3092,
        0x53D6, 0x308A, 0x5165, 0x308C, 0x308B, 0x3002, 0x0A]
     @ [0x2D, 0x20, 0x300C, 0x5354, 0x8ABF, 0x6027,
        0x300D, 0x5411, 0x4E0A, 0x306E, 0x305F, 0x3081, 0x306B, 0x3001, 0x9031,
        0x31, 0x56DE, 0x306E, 0x7DF4, 0x7FD2, 0x3084, 0x78BA, 0x8A8D, 0x3092,
        0x53D6, 0x308A, 0x5165, 0x308C, 0x308B, 0x3002, 0x0A]
   \<and> generateComment eng0 [mk [0x69] s_Speed (Fin 5)] =
     summary_section eng0 (mk [0x69] s_Speed (Fin 5)) []
     @ items_section eng0 [mk [0x69] s_Speed (Fin 5)]
     @ [0x3010, 0x6B21, 0x306E, 0x4E00, 0x6B69, 0x3011, 0x0A]
     @ [0x73FE, 0x72B6, 0x7DAD, 0x6301, 0x3067, 0x4F, 0x4B, 0x3002, 0x5F37, 0x307F,
        0x3092, 0x3055, 0x3089, 0x306B, 0x4F38, 0x3070, 0x3057, 0x307E, 0x3057,
        0x3087, 0x3046, 0x3002]"
  using suggestions_block [of eng0 "hd axes0" "tl axes0"]
    suggestions_block [of eng0 "mk [0x69] s_Speed (Fin 5)" "[]"]
  by (simp add: axes0_def DEFAULT_AXES_def mk_def clamp_cases
      s_speed_def s_creativity_def s_teamwork_def)

text \<open>
  C10. For a non-empty axis sequence the output is not empty, and its last code unit is
  the newline exactly when some axis has a value below 4: in the branch with suggestion
  lines the output ends with a newline, in the branch with the fixed message it does
  not.
\<close>

theorem ending_depends_on_branch:
  "xs \<noteq> [] \<Longrightarrow>
     generateComment eng xs \<noteq> []
     \<and> (last (generateComment eng xs) = 0x0A) = (\<exists>a \<in> set xs. js_lt (axis_value a) (Fin 4))"
proof (cases xs)
  case Nil
  assume "xs \<noteq> []"
  with Nil show ?thesis by simp
next
  case (Cons a0 rest)
  have "generateComment eng (a0 # rest) \<noteq> []"
    by (simp add: suggestions_section_nonempty)
  moreover have "(last (generateComment eng (a0 # rest)) = 0x0A)
      = (\<exists>a \<in> set (a0 # rest). js_lt (axis_value a) (Fin 4))"
    unfolding last_generateComment last_suggestions_section by simp
  ultimately show ?thesis using Cons by simp
qed

theorem ending_depends_on_branch_witness:
  "last (generateComment eng0 [mk [0x69] s_Speed (Fin 3)]) = 0x0A
   \<and> last (generateComment eng0 [mk [0x69] s_Speed (Fin 5)]) \<noteq> 0x0A"
  using ending_depends_on_branch [of "[mk [0x69] s_Speed (Fin 3)]" eng0]
    ending_depends_on_branch [of "[mk [0x69] s_Speed (Fin 5)]" eng0]
  by (simp add: mk_def)

subsection \<open>Independence of the identifiers\<close>

lemma same_text_maps:
  assumes "map axis_label xs = map axis_label ys" and "map axis_value xs = map axis_value ys"
  shows "list_all2 same_text xs ys"
proof -
  have len: "length xs = length ys"
    using assms(1) by (rule map_eq_imp_length_eq)
  have "same_text (xs ! i) (ys ! i)" if "i < length xs" for i
  proof -
    have "map axis_label xs ! i = map axis_label ys ! i" using assms(1) by simp
    moreover have "map axis_value xs ! i = map axis_value ys ! i" using assms(2) by simp
    ultimately show ?thesis using that len by (simp add: same_text_def)
  qed
  with len show ?thesis by (simp add: list_all2_conv_all_nth)
qed

lemma same_text_values: "list_all2 same_text xs ys \<Longrightarrow> map axis_value xs = map axis_value ys"
  by (induction rule: list_all2_induct) (auto simp: same_text_def)

lemma same_text_bullets:
  "list_all2 same_text xs ys \<Longrightarrow> map (bullet_line eng) xs = map (bullet_line eng) ys"
  by (induction rule: list_all2_induct) (auto simp: same_text_def bullet_line_def)

lemma same_text_filter:
  "list_all2 same_text xs ys \<Longrightarrow>
     list_all2 same_text (filter (\<lambda>a. js_lt (axis_value a) (Fin 4)) xs)
                         (filter (\<lambda>a. js_lt (axis_value a) (Fin 4)) ys)"
  by (induction rule: list_all2_induct) (auto simp: same_text_def)

lemma same_text_lines:
  "list_all2 same_text xs ys \<Longrightarrow> map suggestion_line xs = map suggestion_line ys"
  by (induction rule: list_all2_induct) (auto simp: same_text_def suggestion_line_def)

lemma same_text_foldl:
  assumes f: "\<And>p c p' c'. same_text p p' \<Longrightarrow> same_text c c' \<Longrightarrow> same_text (f p c) (f p' c')"
  shows "list_all2 same_text xs ys \<Longrightarrow> same_text a b \<Longrightarrow>
     same_text (foldl f a xs) (foldl f b ys)"
proof (induction arbitrary: a b rule: list_all2_induct)
  case Nil
  then show ?case by simp
next
  case (Cons x xs y ys)
  from Cons.prems Cons.hyps(1) have "same_text (f a x) (f b y)" by (rule f)
  then have "same_text (foldl f (f a x) xs) (foldl f (f b y) ys)" by (rule Cons.IH)
  then show ?case by simp
qed

lemma same_text_highest:
  "list_all2 same_text xs ys \<Longrightarrow> same_text a b \<Longrightarrow>
     same_text (highest_of a xs) (highest_of b ys)"
  unfolding highest_of_def by (rule same_text_foldl) (simp_all add: same_text_def)

lemma same_text_lowest:
  "list_all2 same_text xs ys \<Longrightarrow> same_text a b \<Longrightarrow>
     same_text (lowest_of a xs) (lowest_of b ys)"
  unfolding lowest_of_def by (rule same_text_foldl) (simp_all add: same_text_def)

lemma avg_text_values: 
  "avg_text eng xs =
     toFixed1 eng (js_div_len eng
       (foldl (\<lambda>acc v. js_add eng acc (clamp v (Fin 0) (Fin 5))) (Fin 0) (map axis_value xs))
       (length (map axis_value xs)))"
  by (simp add: avg_text_def foldl_map)

lemma same_text_avg: "list_all2 same_text xs ys \<Longrightarrow> avg_text eng xs = avg_text eng ys"
  unfolding avg_text_values by (simp add: same_text_values)

lemma same_text_suggestions:
  "list_all2 same_text xs ys \<Longrightarrow> suggestions_section xs = suggestions_section ys"
  unfolding suggestions_section_def suggestions_of_def
  by (simp add: same_text_lines [OF list_all2_takeI [OF same_text_filter]])

lemma same_text_generateComment:
  assumes "list_all2 same_text xs ys"
  shows "generateComment eng xs = generateComment eng ys"
proof (cases xs)
  case Nil
  with assms show ?thesis by simp
next
  case (Cons a xs')
  with assms obtain b ys' where ys: "ys = b # ys'" and ab: "same_text a b"
    and rest: "list_all2 same_text xs' ys'"
    by (auto simp: list_all2_Cons1)
  have all: "list_all2 same_text (a # xs') (b # ys')" using ab rest by simp
  have h: "same_text (highest_of a xs') (highest_of b ys')"
    using rest ab by (rule same_text_highest)
  have l: "same_text (lowest_of a xs') (lowest_of b ys')"
    using rest ab by (rule same_text_lowest)
  have s: "summary_section eng a xs' = summary_section eng b ys'"
    using h l same_text_avg [OF all, of eng] by (simp add: summary_section_def same_text_def)
  have i: "items_section eng (a # xs') = items_section eng (b # ys')"
    using same_text_bullets [OF all, of eng] by (simp add: items_section_def bullets_of_def)
  have g: "suggestions_section (a # xs') = suggestions_section (b # ys')"
    using all by (rule same_text_suggestions)
  show ?thesis unfolding Cons ys generateComment.simps s i g by (rule refl)
qed

text \<open>
  C7. \<open>generateComment\<close> is a function of the labels and the values in their order: two
  sequences that agree on them, whatever their ids, give the same string (so two calls
  on the same sequence do), and generating a comment leaves the axes of the state as
  they were.
\<close>

theorem generateComment_reads_labels_and_values:
  assumes "map axis_label xs = map axis_label ys" and "map axis_value xs = map axis_value ys"
  shows "generateComment eng xs = generateComment eng ys
     \<and> axes (handleGenerate eng s) = axes s"
proof
  from assms have "list_all2 same_text xs ys" by (rule same_text_maps)
  then show "generateComment eng xs = generateComment eng ys" by (rule same_text_generateComment)
  show "axes (handleGenerate eng s) = axes s" by (simp add: handleGenerate_def setComment_def)
qed

theorem generateComment_reads_labels_and_values_witness:
  "generateComment eng0 [mk [0x69] s_Speed (Fin 3)] = generateComment eng0 [mk [0x39] s_Speed (Fin 3)]
   \<and> axes (handleGenerate eng0 (app0 [mk [0x69] s_Speed (Fin 3)])) = [mk [0x69] s_Speed (Fin 3)]"
  using generateComment_reads_labels_and_values
    [of "[mk [0x69] s_Speed (Fin 3)]" "[mk [0x39] s_Speed (Fin 3)]" eng0
        "app0 [mk [0x69] s_Speed (Fin 3)]"]
  by (simp add: mk_def app0_def)

subsection \<open>Values outside the range in \<open>generateComment\<close>\<close>

text \<open>
  Where clamping makes no difference: a sequence within the range is its own clamped
  sequence, and on any sequence the average, the qualitative phrase and the suggestions
  section are those of the clamped sequence.
\<close>

lemma clamp_all_fixed: "all_in_range xs \<Longrightarrow> clamp_all xs = xs"
  unfolding all_in_range_def clamp_all_def
  by (induction xs) (simp_all add: clamp_fixed)

lemma phraseForValue_clamp: "phraseForValue (clamp v (Fin 0) (Fin 5)) = phraseForValue v"
  by (cases v) (auto simp: clamp_cases phraseForValue_def js_ge_def)

lemma avg_text_clamp_all: "avg_text eng (clamp_all xs) = avg_text eng xs"
  by (simp add: avg_text_def clamp_all_def foldl_map clamp_twice)

lemma suggestion_line_value: "suggestion_line (a\<lparr>axis_value := v\<rparr>) = suggestion_line a"
  by (simp add: suggestion_line_def)

lemma suggestions_section_clamp_all: "suggestions_section (clamp_all xs) = suggestions_section xs"
proof -
  have "map suggestion_line (take 3 (filter (\<lambda>a. js_lt (axis_value a) (Fin 4)) (clamp_all xs)))
      = map suggestion_line (take 3 (filter (\<lambda>a. js_lt (axis_value a) (Fin 4)) xs))"
    unfolding clamp_all_def filter_map take_map [symmetric] map_map
    by (simp add: comp_def lt4_clamp suggestion_line_value)
  then show ?thesis by (simp add: suggestions_section_def suggestions_of_def)
qed

text \<open>
  C1. The claim is that the output equals the output on the sequence of clamped values.
  The code clamps inside the average only. On the single axis Speed with value 7 the
  average prints as 5.0, the bullet line prints the value as 7 where the clamped
  sequence prints 5, and the two outputs differ. (What remains of the claim is in the
  lemmas above.)
\<close>

theorem generateComment_prints_raw_values:
  "avg_text eng0 [mk [0x69] s_Speed (Fin 7)] = [0x35, 0x2E, 0x30]
   \<and> bullet_line eng0 (mk [0x69] s_Speed (Fin 7))
       = s_dot @ s_Speed @ s_colon @ [0x37] @ s_lparen @ s_excellent @ s_rparen
   \<and> bullet_line eng0 (mk [0x69] s_Speed (clamp (Fin 7) (Fin 0) (Fin 5)))
       = s_dot @ s_Speed @ s_colon @ [0x35] @ s_lparen @ s_excellent @ s_rparen
   \<and> generateComment eng0 [mk [0x69] s_Speed (Fin 7)]
       \<noteq> generateComment eng0 (clamp_all [mk [0x69] s_Speed (Fin 7)])"
  by code_simp

text \<open>
  What does hold of the two folds, on the values as they are: when no value is
  not-a-number, the selected axis is the first one that no other axis exceeds
  (respectively, that exceeds no other); and when all values are equal, both folds
  select the first axis.
\<close>

lemma js_lt_irrefl: "\<not> js_lt v v"
  by (cases v) auto

lemma js_lt_trans: "js_lt a b \<Longrightarrow> js_lt b c \<Longrightarrow> js_lt a c"
  by (cases a; cases b; cases c) auto

lemma js_not_lt_trans:
  "a \<noteq> NaN \<Longrightarrow> b \<noteq> NaN \<Longrightarrow> \<not> js_lt b a \<Longrightarrow> js_lt b c \<Longrightarrow> js_lt a c"
  by (cases a; cases b; cases c) auto

lemma highest_of_snoc:
  "highest_of a0 (rest @ [c]) =
     (if js_gt (axis_value c) (axis_value (highest_of a0 rest)) then c else highest_of a0 rest)"
  by (simp add: highest_of_def)

lemma lowest_of_snoc:
  "lowest_of a0 (rest @ [c]) =
     (if js_lt (axis_value c) (axis_value (lowest_of a0 rest)) then c else lowest_of a0 rest)"
  by (simp add: lowest_of_def)

lemma highest_of_first_max:
  assumes "\<forall>a \<in> set (a0 # rest). axis_value a \<noteq> NaN"
  shows "\<exists>pre post. a0 # rest = pre @ highest_of a0 rest # post
     \<and> (\<forall>b \<in> set pre. js_lt (axis_value b) (axis_value (highest_of a0 rest)))
     \<and> (\<forall>b \<in> set post. \<not> js_lt (axis_value (highest_of a0 rest)) (axis_value b))"
  using assms
proof (induction rest rule: rev_induct)
  case Nil
  have "[a0] = [] @ highest_of a0 [] # []" by (simp add: highest_of_def)
  then show ?case by (intro exI [of _ "[]"]) simp
next
  case (snoc c rest)
  let ?h = "highest_of a0 rest"
  from snoc obtain pre post where split: "a0 # rest = pre @ ?h # post"
    and before: "\<forall>b \<in> set pre. js_lt (axis_value b) (axis_value ?h)"
    and after: "\<forall>b \<in> set post. \<not> js_lt (axis_value ?h) (axis_value b)"
    by auto
  have num: "axis_value b \<noteq> NaN" if "b \<in> set (a0 # rest)" for b
    using snoc.prems that by auto
  have hnum: "axis_value ?h \<noteq> NaN"
    by (rule num) (simp add: split)
  show ?case
  proof (cases "js_lt (axis_value ?h) (axis_value c)")
    case True
    have "js_lt (axis_value b) (axis_value c)" if b: "b \<in> set (a0 # rest)" for b
    proof -
      from b split have "b \<in> set pre \<or> b = ?h \<or> b \<in> set post" by auto
      then show ?thesis
      proof (elim disjE)
        assume "b \<in> set pre"
        with before have "js_lt (axis_value b) (axis_value ?h)" by simp
        then show ?thesis using True by (rule js_lt_trans)
      next
        assume "b = ?h"
        with True show ?thesis by simp
      next
        assume "b \<in> set post"
        with after have "\<not> js_lt (axis_value ?h) (axis_value b)" by simp
        with num [OF b] hnum show ?thesis using True by (rule js_not_lt_trans)
      qed
    qed
    then have "\<forall>b \<in> set (a0 # rest). js_lt (axis_value b) (axis_value c)" by blast
    moreover have "highest_of a0 (rest @ [c]) = c"
      using True by (simp add: highest_of_snoc js_gt_def)
    moreover have "a0 # rest @ [c] = (a0 # rest) @ c # []" by simp
    ultimately show ?thesis by (intro exI [of _ "a0 # rest"] exI [of _ "[]"]) simp
  next
    case False
    then have keep: "highest_of a0 (rest @ [c]) = ?h"
      by (simp add: highest_of_snoc js_gt_def)
    have "a0 # rest @ [c] = pre @ ?h # (post @ [c])" using split by simp
    moreover have "\<forall>b \<in> set (post @ [c]). \<not> js_lt (axis_value ?h) (axis_value b)"
      using after False by auto
    ultimately show ?thesis unfolding keep using before
      by (intro exI [of _ pre] exI [of _ "post @ [c]"]) simp
  qed
qed

lemma js_not_lt_trans2:
  "a \<noteq> NaN \<Longrightarrow> b \<noteq> NaN \<Longrightarrow> \<not> js_lt a b \<Longrightarrow> js_lt c b \<Longrightarrow> js_lt c a"
  by (cases a; cases b; cases c) auto

lemma lowest_of_first_min:
  assumes "\<forall>a \<in> set (a0 # rest). axis_value a \<noteq> NaN"
  shows "\<exists>pre post. a0 # rest = pre @ lowest_of a0 rest # post
     \<and> (\<forall>b \<in> set pre. js_lt (axis_value (lowest_of a0 rest)) (axis_value b))
     \<and> (\<forall>b \<in> set post. \<not> js_lt (axis_value b) (axis_value (lowest_of a0 rest)))"
  using assms
proof (induction rest rule: rev_induct)
  case Nil
  have "[a0] = [] @ lowest_of a0 [] # []" by (simp add: lowest_of_def)
  then show ?case by (intro exI [of _ "[]"]) simp
next
  case (snoc c rest)
  let ?l = "lowest_of a0 rest"
  from snoc obtain pre post where split: "a0 # rest = pre @ ?l # post"
    and before: "\<forall>b \<in> set pre. js_lt (axis_value ?l) (axis_value b)"
    and after: "\<forall>b \<in> set post. \<not> js_lt (axis_value b) (axis_value ?l)"
    by auto
  have num: "axis_value b \<noteq> NaN" if "b \<in> set (a0 # rest)" for b
    using snoc.prems that by auto
  have lnum: "axis_value ?l \<noteq> NaN"
    by (rule num) (simp add: split)
  show ?case
  proof (cases "js_lt (axis_value c) (axis_value ?l)")
    case True
    have "js_lt (axis_value c) (axis_value b)" if b: "b \<in> set (a0 # rest)" for b
    proof -
      from b split have "b \<in> set pre \<or> b = ?l \<or> b \<in> set post" by auto
      then show ?thesis
      proof (elim disjE)
        assume "b \<in> set pre"
        with before have "js_lt (axis_value ?l) (axis_value b)" by simp
        with True show ?thesis by (rule js_lt_trans)
      next
        assume "b = ?l"
        with True show ?thesis by simp
      next
        assume "b \<in> set post"
        with after have "\<not> js_lt (axis_value b) (axis_value ?l)" by simp
        with num [OF b] lnum show ?thesis using True by (rule js_not_lt_trans2)
      qed
    qed
    then have "\<forall>b \<in> set (a0 # rest). js_lt (axis_value c) (axis_value b)" by blast
    moreover have "lowest_of a0 (rest @ [c]) = c"
      using True by (simp add: lowest_of_snoc)
    moreover have "a0 # rest @ [c] = (a0 # rest) @ c # []" by simp
    ultimately show ?thesis by (intro exI [of _ "a0 # rest"] exI [of _ "[]"]) simp
  next
    case False
    then have keep: "lowest_of a0 (rest @ [c]) = ?l"
      by (simp add: lowest_of_snoc)
    have "a0 # rest @ [c] = pre @ ?l # (post @ [c])" using split by simp
    moreover have "\<forall>b \<in> set (post @ [c]). \<not> js_lt (axis_value b) (axis_value ?l)"
      using after False by auto
    ultimately show ?thesis unfolding keep using before
      by (intro exI [of _ pre] exI [of _ "post @ [c]"]) simp
  qed
qed

lemma tied_first:
  "\<forall>b \<in> set rest. axis_value b = axis_value a0 \<Longrightarrow>
     highest_of a0 rest = a0 \<and> lowest_of a0 rest = a0"
  by (induction rest rule: rev_induct)
     (simp_all add: highest_of_def lowest_of_def js_gt_def js_lt_irrefl)

text \<open>The default axes: highest the first 4, lowest the first 3.\<close>

lemma default_axes_summary:
  "axis_label (highest_of (hd axes0) (tl axes0)) = s_accuracy
   \<and> axis_label (lowest_of (hd axes0) (tl axes0)) = s_speed"
  by code_simp

text \<open>
  C4. The claim is that the highest axis is the first whose clamped value is the maximum
  of the clamped values, and the lowest the first whose clamped value is the minimum.
  The folds compare the values as they are. On A with 5 followed by B with 7 both clamp
  to 5, so the first axis at the maximum is A, and the code selects B; on A with 0
  followed by B with -1 both clamp to 0, and the code selects B as the lowest. On the
  clamped sequences the code selects A both times.
\<close>

theorem highest_lowest_compare_raw_values:
  "axis_label (highest_of (mk [0x69] [0x41] (Fin 5)) [mk [0x39] [0x42] (Fin 7)]) = [0x42]
   \<and> axis_label (highest_of (mk [0x69] [0x41] (clamp (Fin 5) (Fin 0) (Fin 5)))
        [mk [0x39] [0x42] (clamp (Fin 7) (Fin 0) (Fin 5))]) = [0x41]
   \<and> axis_label (lowest_of (mk [0x69] [0x41] (Fin 0)) [mk [0x39] [0x42] (Fin (- 1))]) = [0x42]
   \<and> axis_label (lowest_of (mk [0x69] [0x41] (clamp (Fin 0) (Fin 0) (Fin 5)))
        [mk [0x39] [0x42] (clamp (Fin (- 1)) (Fin 0) (Fin 5))]) = [0x41]"
  by code_simp

subsection \<open>The store\<close>

lemma updateValue_axes:
  "axes (updateValue i v s) =
     map (\<lambda>a. if axis_id a = i then a\<lparr>axis_value := clamp v (Fin 0) (Fin 5)\<rparr> else a) (axes s)"
  by (simp add: updateValue_def setAxes_def)

lemma updateValue_absent: "i \<notin> axis_id ` set (axes s) \<Longrightarrow> updateValue i v s = s"
proof -
  assume "i \<notin> axis_id ` set (axes s)"
  then have "map (\<lambda>a. if axis_id a = i then a\<lparr>axis_value := clamp v (Fin 0) (Fin 5)\<rparr> else a) (axes s)
      = axes s"
    by (intro map_idI) auto
  then show ?thesis by (simp add: updateValue_def setAxes_def)
qed

lemma updateValue_examples:
  "clamp (Fin (- 3)) (Fin 0) (Fin 5) = Fin 0 \<and> clamp (Fin 99) (Fin 0) (Fin 5) = Fin 5
   \<and> clamp NaN (Fin 0) (Fin 5) = NaN"
  by (simp add: clamp_cases)

text \<open>
  C2. The claim is that \<open>updateValue\<close> stores the clamp of the new value, after coercing
  an input that is not a number to 0. The code clamps without coercing: on the id of an
  axis and not-a-number it stores not-a-number, where the claim says 0. (The clamping of
  numbers and the no-op on an absent id are the three lemmas above.)
\<close>

theorem updateValue_stores_NaN:
  "axes (updateValue [0x69] NaN (app0 [mk [0x69] s_Speed (Fin 3)])) = [mk [0x69] s_Speed NaN]
   \<and> clamp (or_zero NaN) (Fin 0) (Fin 5) = Fin 0"
  by code_simp

lemma in_range_3: "in_range (Fin 3)"
  by (simp add: in_range_def)

lemma exec_keeps_range:
  "all_in_range (axes s) \<Longrightarrow> numeric_command c \<Longrightarrow> all_in_range (axes (exec s c))"
  by (cases c)
    (auto simp: all_in_range_def numeric_command_def addAxis_def removeAxis_def
      updateLabel_def updateValue_def setAxes_def list_all_iff clamp_in_range_iff in_range_3)

lemma run_keeps_range:
  "all_in_range (axes s) \<Longrightarrow> list_all numeric_command cs \<Longrightarrow> all_in_range (axes (run s cs))"
  unfolding run_def
  by (induction cs arbitrary: s) (simp_all add: exec_keeps_range)

text \<open>
  C3. The claim is that every stored value stays within 0 and 5 under any run of the
  four mutations with arbitrary inputs. The default axes are within the range, and one
  \<open>updateValue\<close> with not-a-number on the id of the first axis leaves a value outside
  it. (Runs whose numeric inputs are numbers keep the range: the lemma above.)
\<close>

theorem run_leaves_range_on_NaN:
  "all_in_range axes0
   \<and> \<not> all_in_range (axes (run (app0 axes0) [UpdateValue [0x69] NaN]))"
  by code_simp

text \<open>
  C8, as stated: adding and then removing the id that was added restores the
  collection. It fails when \<open>uid\<close> draws an id that an axis already has: the removal
  filters out every axis with that id.
\<close>

theorem add_then_remove_collision:
  "axes (removeAxis [0x69] (addAxis [0x69] (app0 [mk [0x69] s_Speed (Fin 3)]))) = []
   \<and> removeAxis [0x69] (addAxis [0x69] (app0 [mk [0x69] s_Speed (Fin 3)]))
       \<noteq> app0 [mk [0x69] s_Speed (Fin 3)]"
  by code_simp

text \<open>
  C8, amended. In every state, adding appends exactly one axis at the end, with the
  drawn id, the default label and value 3, and leaves the axes before it as they were;
  and when the drawn id is not the id of an axis already in the collection, removing
  that id right after restores the state.
\<close>

theorem add_then_remove:
  "axes (addAxis u s) = axes s @ [\<lparr>axis_id = u, axis_label = s_new_item, axis_value = Fin 3\<rparr>]
   \<and> (u \<notin> axis_id ` set (axes s) \<longrightarrow> removeAxis u (addAxis u s) = s)"
proof -
  have "filter (\<lambda>a. axis_id a \<noteq> u) (axes s) = axes s" if "u \<notin> axis_id ` set (axes s)"
    using that by (auto simp: filter_id_conv)
  then show ?thesis by (simp add: addAxis_def removeAxis_def setAxes_def)
qed

theorem add_then_remove_witness:
  "axes (addAxis [0x39] (app0 [mk [0x69] s_Speed (Fin 3)]))
     = [mk [0x69] s_Speed (Fin 3), mk [0x39] s_new_item (Fin 3)]
   \<and> removeAxis [0x39] (addAxis [0x39] (app0 [mk [0x69] s_Speed (Fin 3)]))
     = app0 [mk [0x69] s_Speed (Fin 3)]"
  using add_then_remove [of "[0x39]" "app0 [mk [0x69] s_Speed (Fin 3)]"]
  by (simp add: app0_def mk_def)

end
